theory Spec2Isabelle
  imports Complex_Main "HOL-Library.Word" "HOL-Library.Log_Nat" "HOL-Library.Sublist"
begin

section \<open>The resident registry of \<open>src/routes/index.js\<close>\<close>

text \<open>
  The router keeps two module-level variables, the array \<open>residents\<close> and the counter
  \<open>nextResidentId\<close>, and serves three routes over them: \<open>GET /api/residents\<close>,
  \<open>POST /api/residents\<close> and \<open>DELETE /api/residents/:id\<close>. Each handler is modelled as a
  function from the registry and the request data to the handler's outcome and the
  registry afterwards. The JavaScript built-ins the handlers call (\<open>typeof\<close>,
  \<open>String.prototype.trim\<close>, \<open>Number\<close>, \<open>Number.isFinite\<close>, \<open>Math.trunc\<close>,
  \<open>findIndex\<close>, \<open>splice\<close>, \<open>push\<close>) are modelled first, after ECMA-262.
\<close>

subsection \<open>JavaScript strings\<close>

text \<open>A JavaScript string is a sequence of UTF-16 code units.\<close>

type_synonym code_unit = "16 word"
type_synonym jsstring = "code_unit list"

definition ascii :: "string \<Rightarrow> jsstring" where
  "ascii s = map of_char s"

text \<open>
  \<open>WhiteSpace\<close> and \<open>LineTerminator\<close> of ECMA-262: TAB, LF, VT, FF, CR, SP, NBSP, the
  other space separators of Unicode (category Zs), LS, PS and the byte order mark.
  These are the code units that \<open>trim\<close> strips and that \<open>Number\<close> skips around a numeric
  literal.
\<close>

definition is_white_space :: "code_unit \<Rightarrow> bool" where
  "is_white_space c \<longleftrightarrow>
     List.member [0x0009, 0x000A, 0x000B, 0x000C, 0x000D, 0x0020, 0x00A0, 0x1680,
                  0x2028, 0x2029, 0x202F, 0x205F, 0x3000, 0xFEFF] c
     \<or> (0x2000 \<le> c \<and> c \<le> 0x200A)"

definition trim :: "jsstring \<Rightarrow> jsstring" where
  "trim s = rev (dropWhile is_white_space (rev (dropWhile is_white_space s)))"

subsection \<open>JavaScript numbers\<close>

text \<open>
  A Number is NaN, an infinity or a finite double. A finite double is given by its exact
  value, a rational; the two zeros are one value here, which loses nothing: \<open>-0 < 0\<close> is
  false, \<open>Math.trunc(-0)\<close> is a zero, \<open>-0 === 0\<close> is true, and JSON writes both as \<open>0\<close>.
\<close>

datatype jsnum = NaN | PosInf | NegInf | Finite rat

fun isFinite :: "jsnum \<Rightarrow> bool" where
  "isFinite (Finite q) = True"
| "isFinite _ = False"

text \<open>The relational operator \<open><\<close> on Numbers; every comparison with NaN is false.\<close>

fun js_less :: "jsnum \<Rightarrow> jsnum \<Rightarrow> bool" where
  "js_less NaN _ = False"
| "js_less _ NaN = False"
| "js_less (Finite a) (Finite b) = (a < b)"
| "js_less NegInf b = (b \<noteq> NegInf)"
| "js_less a PosInf = (a \<noteq> PosInf)"
| "js_less _ _ = False"

text \<open>Strict equality \<open>===\<close> on Numbers; NaN equals nothing.\<close>

definition js_strict_eq :: "jsnum \<Rightarrow> jsnum \<Rightarrow> bool" where
  "js_strict_eq a b \<longleftrightarrow> a \<noteq> NaN \<and> b \<noteq> NaN \<and> a = b"

text \<open>\<open>Math.trunc\<close>: the integral part, towards zero; NaN and the infinities are kept.\<close>

definition trunc_rat :: "rat \<Rightarrow> int" where
  "trunc_rat q = (if 0 \<le> q then \<lfloor>q\<rfloor> else \<lceil>q\<rceil>)"

fun js_trunc :: "jsnum \<Rightarrow> jsnum" where
  "js_trunc (Finite q) = Finite (of_int (trunc_rat q))"
| "js_trunc n = n"

fun js_negate :: "jsnum \<Rightarrow> jsnum" where
  "js_negate NaN = NaN"
| "js_negate PosInf = NegInf"
| "js_negate NegInf = PosInf"
| "js_negate (Finite q) = Finite (- q)"

text \<open>
  Rounding a mathematical value to the nearest double, ties to even (IEEE 754 binary64:
  53 significant bits, least exponent \<open>-1022\<close>, overflow to infinity from \<open>2^1024\<close>). This
  is how the value of a numeric literal becomes a Number.
\<close>

definition round_half_even :: "rat \<Rightarrow> int" where
  "round_half_even q =
     (let f = \<lfloor>q\<rfloor>; d = q - of_int f
      in if d < 1 / 2 then f else if 1 / 2 < d then f + 1 else if even f then f else f + 1)"

definition ilog2 :: "rat \<Rightarrow> int" where
  "ilog2 a =
     (let (p, d) = quotient_of a; e = bitlen p - bitlen d
      in if 2 powi e \<le> a then e else e - 1)"

definition round_double :: "rat \<Rightarrow> jsnum" where
  "round_double q =
     (if q = 0 then Finite 0
      else let a = \<bar>q\<bar>;
               e = max (ilog2 a) (- 1022);
               ulp = 2 powi (e - 52);
               v = of_int (round_half_even (a / ulp)) * ulp
           in if 2 powi 1024 \<le> v then (if 0 < q then PosInf else NegInf)
              else Finite (sgn q * v))"

text \<open>
  The sum of two Numbers (\<open>Number::add\<close>): NaN if an operand is NaN or the operands are
  infinities of opposite sign, an infinite operand otherwise, and for two finite operands
  their exact sum, rounded. The postfix \<open>++\<close> on a Number variable stores the old value
  plus \<open>1\<close> and yields the old value.
\<close>

fun js_add :: "jsnum \<Rightarrow> jsnum \<Rightarrow> jsnum" where
  "js_add NaN _ = NaN"
| "js_add _ NaN = NaN"
| "js_add (Finite a) (Finite b) = round_double (a + b)"
| "js_add PosInf NegInf = NaN"
| "js_add NegInf PosInf = NaN"
| "js_add PosInf _ = PosInf"
| "js_add NegInf _ = NegInf"
| "js_add _ b = b"

definition increment :: "jsnum \<Rightarrow> jsnum" where
  "increment n = js_add n (Finite 1)"

subsection \<open>\<open>Number\<close> of a string\<close>

text \<open>
  \<open>StringToNumber\<close>: the string is stripped of white space; the empty string is \<open>0\<close>; a
  \<open>StrNumericLiteral\<close> (a signed decimal literal with optional fraction and exponent,
  \<open>Infinity\<close> with optional sign, or an unsigned binary, octal or hexadecimal integer)
  is its rounded value; everything else is NaN.
\<close>

definition digit_of :: "code_unit \<Rightarrow> int option" where
  "digit_of c =
     (if 0x30 \<le> c \<and> c \<le> 0x39 then Some (uint c - 0x30)
      else if 0x61 \<le> c \<and> c \<le> 0x66 then Some (uint c - 0x61 + 10)
      else if 0x41 \<le> c \<and> c \<le> 0x46 then Some (uint c - 0x41 + 10)
      else None)"

definition is_digit :: "int \<Rightarrow> code_unit \<Rightarrow> bool" where
  "is_digit base c = (case digit_of c of None \<Rightarrow> False | Some d \<Rightarrow> d < base)"

definition digits_value :: "int \<Rightarrow> jsstring \<Rightarrow> int" where
  "digits_value base ds = foldl (\<lambda>a c. base * a + (case digit_of c of None \<Rightarrow> 0 | Some d \<Rightarrow> d)) 0 ds"

definition all_digits :: "int \<Rightarrow> jsstring \<Rightarrow> bool" where
  "all_digits base ds \<longleftrightarrow> ds \<noteq> [] \<and> list_all (is_digit base) ds"

definition signed_integer :: "jsstring \<Rightarrow> int option" where
  "signed_integer s =
     (case s of
        [] \<Rightarrow> None
      | c # ds \<Rightarrow>
          if c = 0x2B then (if all_digits 10 ds then Some (digits_value 10 ds) else None)
          else if c = 0x2D then (if all_digits 10 ds then Some (- digits_value 10 ds) else None)
          else if all_digits 10 s then Some (digits_value 10 s) else None)"

definition exponent_part :: "jsstring \<Rightarrow> int option" where
  "exponent_part s =
     (case s of
        [] \<Rightarrow> Some 0
      | c # r \<Rightarrow> if c = 0x65 \<or> c = 0x45 then signed_integer r else None)"

definition unsigned_decimal :: "jsstring \<Rightarrow> jsnum option" where
  "unsigned_decimal s =
     (if s = ascii ''Infinity'' then Some PosInf
      else
        let ip = takeWhile (is_digit 10) s;
            r1 = dropWhile (is_digit 10) s;
            (fp, r2) = (case r1 of
                          [] \<Rightarrow> ([], [])
                        | c # r \<Rightarrow>
                            if c = 0x2E then (takeWhile (is_digit 10) r, dropWhile (is_digit 10) r)
                            else ([], r1))
        in if ip = [] \<and> fp = [] then None
           else case exponent_part r2 of
                  None \<Rightarrow> None
                | Some e \<Rightarrow>
                    Some (round_double
                            (of_int (digits_value 10 (ip @ fp)) * 10 powi (e - int (length fp)))))"

definition str_decimal :: "jsstring \<Rightarrow> jsnum option" where
  "str_decimal s =
     (case s of
        [] \<Rightarrow> None
      | c # r \<Rightarrow>
          if c = 0x2B then unsigned_decimal r
          else if c = 0x2D then map_option js_negate (unsigned_decimal r)
          else unsigned_decimal s)"

definition non_decimal :: "jsstring \<Rightarrow> jsnum option" where
  "non_decimal s =
     (case s of
        z # p # ds \<Rightarrow>
          if z \<noteq> 0x30 then None
          else
            let base = (if p = 0x78 \<or> p = 0x58 then 16
                        else if p = 0x6F \<or> p = 0x4F then 8
                        else if p = 0x62 \<or> p = 0x42 then 2 else (0::int))
            in if base \<noteq> 0 \<and> all_digits base ds
               then Some (round_double (of_int (digits_value base ds))) else None
      | _ \<Rightarrow> None)"

definition string_to_number :: "jsstring \<Rightarrow> jsnum" where
  "string_to_number s =
     (let t = trim s
      in if t = [] then Finite 0
         else case non_decimal t of
                Some n \<Rightarrow> n
              | None \<Rightarrow> (case str_decimal t of Some n \<Rightarrow> n | None \<Rightarrow> NaN))"

subsection \<open>Values of a request body\<close>

text \<open>
  \<open>req.body\<close> is whatever the body parser left there: nothing (\<open>undefined\<close>) or a parsed
  JSON text. An object is the list of its own properties, read with \<open>map_of\<close>. No value
  in a parsed body is callable.
\<close>

datatype jsval =
    VUndefined
  | VNull
  | VBool bool
  | VNum jsnum
  | VStr jsstring
  | VArr "jsval list"
  | VObj "(jsstring \<times> jsval) list"

datatype js_error = TypeError

text \<open>\<open>ToBoolean\<close>, which decides \<open>req.body || {}\<close>.\<close>

fun to_boolean :: "jsval \<Rightarrow> bool" where
  "to_boolean VUndefined = False"
| "to_boolean VNull = False"
| "to_boolean (VBool b) = b"
| "to_boolean (VNum n) = (n \<noteq> NaN \<and> n \<noteq> Finite 0)"
| "to_boolean (VStr s) = (s \<noteq> [])"
| "to_boolean (VArr vs) = True"
| "to_boolean (VObj ps) = True"

text \<open>
  Reading a property that no prototype defines, as \<open>name\<close> and \<open>age\<close> are: an object
  gives its own property or \<open>undefined\<close>, every other value \<open>undefined\<close>.
\<close>

definition get_prop :: "jsval \<Rightarrow> jsstring \<Rightarrow> jsval" where
  "get_prop v k =
     (case v of
        VObj ps \<Rightarrow> (case map_of ps k of Some x \<Rightarrow> x | None \<Rightarrow> VUndefined)
      | _ \<Rightarrow> VUndefined)"

subsection \<open>\<open>Number\<close> of a value\<close>

text \<open>
  \<open>ToNumber\<close> maps \<open>undefined\<close> to NaN, \<open>null\<close> to \<open>0\<close>, \<open>false\<close> and \<open>true\<close> to \<open>0\<close> and
  \<open>1\<close>, a Number to itself and a string to \<open>StringToNumber\<close> of it. An object or array
  is first made primitive (\<open>OrdinaryToPrimitive\<close>, hint number): \<open>valueOf\<close> is tried and
  gives no primitive (the inherited one returns the object, an own property of that name
  is not callable), then \<open>toString\<close>, and the string it returns is converted.

  \<^item> A plain object's inherited \<open>toString\<close> returns \<open>[object Object]\<close>, which converts to
    NaN. An own property \<open>toString\<close> hides it and is not callable: no method is left
    and the conversion throws a TypeError.
  \<^item> An array's \<open>toString\<close> joins the strings of its elements with commas, \<open>undefined\<close>
    and \<open>null\<close> counting as empty strings; it throws where the string of an element
    does. The empty array joins to the empty string, one element to its own string, two
    and more to a string with a comma, which is no numeric literal. The string of a
    Number converts back to that Number.
\<close>

fun to_string_throws :: "jsval \<Rightarrow> bool" where
  "to_string_throws (VObj ps) = (map_of ps (ascii ''toString'') \<noteq> None)"
| "to_string_throws (VArr vs) = list_ex to_string_throws vs"
| "to_string_throws _ = False"

text \<open>\<open>StringToNumber(ToString(v))\<close>, for a value whose string conversion does not throw.\<close>

fun number_of_string_of :: "jsval \<Rightarrow> jsnum" where
  "number_of_string_of (VNum n) = n"
| "number_of_string_of (VStr s) = string_to_number s"
| "number_of_string_of (VArr []) = Finite 0"
| "number_of_string_of (VArr [VUndefined]) = Finite 0"
| "number_of_string_of (VArr [VNull]) = Finite 0"
| "number_of_string_of (VArr [v]) = number_of_string_of v"
| "number_of_string_of _ = NaN"

fun to_number :: "jsval \<Rightarrow> js_error + jsnum" where
  "to_number VUndefined = Inr NaN"
| "to_number VNull = Inr (Finite 0)"
| "to_number (VBool b) = Inr (Finite (if b then 1 else 0))"
| "to_number (VNum n) = Inr n"
| "to_number (VStr s) = Inr (string_to_number s)"
| "to_number v = (if to_string_throws v then Inl TypeError else Inr (number_of_string_of v))"

subsection \<open>Arrays\<close>

text \<open>\<open>Array.prototype.findIndex\<close>: the index of the first element that satisfies the
  predicate, \<open>-1\<close> when there is none.\<close>

fun findIndex :: "('a \<Rightarrow> bool) \<Rightarrow> 'a list \<Rightarrow> int" where
  "findIndex P [] = - 1"
| "findIndex P (x # xs) =
     (if P x then 0 else let i = findIndex P xs in if i = - 1 then - 1 else i + 1)"

text \<open>\<open>Array.prototype.splice(start, deleteCount)\<close>, the array afterwards: a negative
  \<open>start\<close> counts from the end, and both arguments are clamped to the array.\<close>

definition splice :: "'a list \<Rightarrow> int \<Rightarrow> int \<Rightarrow> 'a list" where
  "splice xs start deleteCount =
     (let len = int (length xs);
          from = (if start < 0 then max (len + start) 0 else min start len);
          n = min (max deleteCount 0) (len - from)
      in take (nat from) xs @ drop (nat (from + n)) xs)"

subsection \<open>The in-memory data store\<close>

text \<open>
  A resident is the object \<open>{id, name, age}\<close> that the POST handler builds. The counter
  \<open>nextResidentId\<close> and the ids taken from it are Numbers, as in the code: the counter
  starts at \<open>1\<close> and \<open>nextResidentId++\<close> adds \<open>1\<close> in double arithmetic.
\<close>

record resident =
  r_id :: jsnum
  r_name :: jsstring
  r_age :: jsnum

record registry =
  residents :: "resident list"
  nextResidentId :: jsnum

definition initial :: registry where
  "initial = \<lparr>residents = [], nextResidentId = Finite 1\<rparr>"

subsection \<open>Responses\<close>

datatype body =
    JsonResidents "resident list"
  | JsonResident resident
  | JsonError string string
  | NoBody

record response =
  status :: nat
  body :: body

text \<open>The outcome of a handler: the response it sends, or the exception it throws.\<close>

type_synonym outcome = "js_error + response"

definition name_required :: response where
  \<open>name_required = \<lparr>status = 400, body = JsonError ''error'' ''Field "name" is required''\<rparr>\<close>

definition age_invalid :: response where
  \<open>age_invalid =
     \<lparr>status = 400, body = JsonError ''error'' ''Field "age" must be a non-negative number''\<rparr>\<close>

definition not_found :: response where
  "not_found = \<lparr>status = 404, body = JsonError ''error'' ''Resident not found''\<rparr>"

subsection \<open>The handlers\<close>


text \<open>\<open>router.post('/api/residents')\<close>, from the destructured \<open>name\<close> and \<open>age\<close> on.\<close>

definition create :: "registry \<Rightarrow> jsval \<Rightarrow> jsval \<Rightarrow> outcome \<times> registry" where
  "create s name age =
     (case name of
        VStr n \<Rightarrow>
          if length (trim n) = 0 then (Inr name_required, s)
          else (case to_number age of
                  Inl e \<Rightarrow> (Inl e, s)
                | Inr parsedAge \<Rightarrow>
                    if \<not> isFinite parsedAge \<or> js_less parsedAge (Finite 0)
                    then (Inr age_invalid, s)
                    else
                      let resident = \<lparr>r_id = nextResidentId s, r_name = trim n,
                                        r_age = js_trunc parsedAge\<rparr>
                      in (Inr \<lparr>status = 201, body = JsonResident resident\<rparr>,
                          \<lparr>residents = residents s @ [resident],
                           nextResidentId = increment (nextResidentId s)\<rparr>))
      | _ \<Rightarrow> (Inr name_required, s))"

text \<open>The whole handler: \<open>const { name, age } = req.body || {}\<close>, then the above.\<close>

definition post_residents :: "registry \<Rightarrow> jsval \<Rightarrow> outcome \<times> registry" where
  "post_residents s req_body =
     (let b = (if to_boolean req_body then req_body else VObj [])
      in create s (get_prop b (ascii ''name'')) (get_prop b (ascii ''age'')))"

text \<open>\<open>router.delete('/api/residents/:id')\<close>; the route parameter is a string. The
  callback of \<open>findIndex\<close> is \<open>(r) => r.id === id\<close>.\<close>

definition has_id :: "jsnum \<Rightarrow> resident \<Rightarrow> bool" where
  "has_id ident r \<longleftrightarrow> js_strict_eq (r_id r) ident"

definition delete_resident :: "registry \<Rightarrow> jsstring \<Rightarrow> outcome \<times> registry" where
  "delete_resident s id_param =
     (let ident = string_to_number id_param
      in if \<not> isFinite ident then (Inr not_found, s)
         else
           let idx = findIndex (has_id ident) (residents s)
           in if idx = - 1 then (Inr not_found, s)
              else (Inr \<lparr>status = 204, body = NoBody\<rparr>,
                    s\<lparr>residents := splice (residents s) idx 1\<rparr>))"

subsection \<open>The router\<close>






section \<open>Properties\<close>

subsection \<open>Built-ins\<close>















lemma number_abc: "string_to_number (ascii ''abc'') = NaN"
  by code_simp


lemma number_minus_1: "string_to_number (ascii ''-1'') = Finite (- 1)"
  by code_simp





subsection \<open>The handlers, case by case\<close>




lemma age_rule:
  assumes "trim n \<noteq> []" and "to_number age = Inr a"
  shows \<open>create s (VStr n) age =
           (if isFinite a \<and> \<not> js_less a (Finite 0)
            then (Inr \<lparr>status = 201,
                       body = JsonResident \<lparr>r_id = nextResidentId s, r_name = trim n,
                                             r_age = js_trunc a\<rparr>\<rparr>,
                  \<lparr>residents = residents s @ [\<lparr>r_id = nextResidentId s, r_name = trim n,
                                                r_age = js_trunc a\<rparr>],
                   nextResidentId = increment (nextResidentId s)\<rparr>)
            else (Inr \<lparr>status = 400,
                       body = JsonError ''error''
                                ''Field "age" must be a non-negative number''\<rparr>, s))\<close>
  using assms by (simp add: create_def age_invalid_def Let_def)

text \<open>The ages \<open>-1\<close>, \<open>"abc"\<close>, \<open>"-1"\<close> and a missing age are answered 400.\<close>

lemma age_rule_examples:
  assumes "trim n \<noteq> []"
    and "age = VNum (Finite (- 1)) \<or> age = VStr (ascii ''abc'') \<or> age = VStr (ascii ''-1'')
         \<or> age = VUndefined"
  shows \<open>create s (VStr n) age =
           (Inr \<lparr>status = 400,
                 body = JsonError ''error''
                          ''Field "age" must be a non-negative number''\<rparr>, s)\<close>
proof -
  from assms(2) have "to_number age = Inr (Finite (- 1)) \<or> to_number age = Inr NaN"
    by (auto simp: number_abc number_minus_1)
  then show ?thesis
    using age_rule [OF assms(1), of age _ s] by auto
qed

lemma age_throws:
  assumes "trim n \<noteq> []" and "to_number age = Inl e"
  shows "create s (VStr n) age = (Inl e, s)"
  using assms by (simp add: create_def)


lemma create_400_unchanged:
  "fst (create s name age) = Inr r \<Longrightarrow> status r = 400 \<Longrightarrow> snd (create s name age) = s"
  by (auto simp: create_def Let_def split: jsval.splits sum.splits if_splits)



lemma delete_404_unchanged:
  "fst (delete_resident s p) = Inr r \<Longrightarrow> status r = 404 \<Longrightarrow> snd (delete_resident s p) = s"
  by (auto simp: delete_resident_def Let_def split: if_splits)




subsection \<open>The ids handed out\<close>
















subsection \<open>Runs of the service\<close>






subsection \<open>Create\<close>



text \<open>
  C4. The name rule comes first: a name that is not a string, or a string that trims to
  the empty string, is answered 400 with the name message whatever the age is, and the
  registry is as before.
\<close>

theorem name_rule_first:
  assumes "\<forall>n. name = VStr n \<longrightarrow> trim n = []"
  shows \<open>create s name age =
           (Inr \<lparr>status = 400, body = JsonError ''error'' ''Field "name" is required''\<rparr>, s)\<close>
  using assms by (cases name) (simp_all add: create_def name_required_def)

theorem name_rule_first_witness:
  \<open>create initial (VStr (ascii ''   '')) (VStr (ascii ''abc'')) =
     (Inr \<lparr>status = 400, body = JsonError ''error'' ''Field "name" is required''\<rparr>, initial)
   \<and> create initial (VNum (Finite 7)) (VNum (Finite (- 1))) =
     (Inr \<lparr>status = 400, body = JsonError ''error'' ''Field "name" is required''\<rparr>, initial)
   \<and> create initial VUndefined (VObj [(ascii ''toString'', VNum (Finite 1))]) =
     (Inr \<lparr>status = 400, body = JsonError ''error'' ''Field "name" is required''\<rparr>, initial)\<close>
  using name_rule_first [of "VStr (ascii ''   '')" initial "VStr (ascii ''abc'')"]
    name_rule_first [of "VNum (Finite 7)" initial "VNum (Finite (- 1))"]
    name_rule_first [of VUndefined initial "VObj [(ascii ''toString'', VNum (Finite 1))]"]
  by (simp add: trim_def ascii_def is_white_space_def)

text \<open>
  C5. The claim: with a valid name, an age that does not convert to a finite number
  \<open>\<ge> 0\<close> is answered 400 with the age message, and every other age passes. The handler
  does so whenever \<open>Number(age)\<close> returns (lemma \<open>age_rule\<close>). But \<open>Number(age)\<close> throws a
  TypeError for an object with an own property \<open>toString\<close>, as in the JSON body
  \<open>{"name": "Jane", "age": {"toString": 1}}\<close>: the handler sends no 400, the exception
  leaves it.
\<close>

theorem age_object_throws:
  "post_residents initial
     (VObj [(ascii ''name'', VStr (ascii ''Jane'')),
            (ascii ''age'', VObj [(ascii ''toString'', VNum (Finite 1))])])
   = (Inl TypeError, initial)"
  by (simp add: post_residents_def get_prop_def create_def ascii_def trim_def is_white_space_def)



text \<open>
  C10. A request body that is absent (\<open>undefined\<close>), \<open>null\<close>, or has no own property
  \<open>name\<close> does not make the handler throw: it answers 400 with the name message and
  leaves the registry as it was.
\<close>

theorem create_total_in_body:
  assumes "b = VUndefined \<or> b = VNull \<or> (\<forall>ps. b = VObj ps \<longrightarrow> map_of ps (ascii ''name'') = None)"
  shows \<open>post_residents s b =
           (Inr \<lparr>status = 400, body = JsonError ''error'' ''Field "name" is required''\<rparr>, s)\<close>
proof -
  have "get_prop (if to_boolean b then b else VObj []) (ascii ''name'') = VUndefined"
    using assms by (cases b) (auto simp: get_prop_def)
  then show ?thesis
    by (simp add: post_residents_def create_def name_required_def)
qed

theorem create_total_in_body_witness:
  \<open>post_residents initial VUndefined =
     (Inr \<lparr>status = 400, body = JsonError ''error'' ''Field "name" is required''\<rparr>, initial)
   \<and> post_residents initial VNull =
     (Inr \<lparr>status = 400, body = JsonError ''error'' ''Field "name" is required''\<rparr>, initial)
   \<and> post_residents initial (VObj [(ascii ''age'', VNum (Finite 5))]) =
     (Inr \<lparr>status = 400, body = JsonError ''error'' ''Field "name" is required''\<rparr>, initial)\<close>
  using create_total_in_body [of VUndefined initial] create_total_in_body [of VNull initial]
    create_total_in_body [of "VObj [(ascii ''age'', VNum (Finite 5))]" initial]
  by (simp add: ascii_def)

subsection \<open>Failed requests\<close>

text \<open>
  C6. When the POST handler answers 400, or the DELETE handler answers 404, the registry
  (the array and the counter) is exactly as before the request.
\<close>

theorem failed_request_keeps_state:
  "(fst (post_residents s b) = Inr r \<and> status r = 400 \<longrightarrow> snd (post_residents s b) = s)
   \<and> (fst (delete_resident s p) = Inr r' \<and> status r' = 404 \<longrightarrow> snd (delete_resident s p) = s)"
  using create_400_unchanged delete_404_unchanged
  by (simp add: post_residents_def Let_def)

theorem failed_request_keeps_state_witness:
  \<open>post_residents initial (VObj [(ascii ''name'', VStr []), (ascii ''age'', VNum (Finite 30))]) =
     (Inr \<lparr>status = 400, body = JsonError ''error'' ''Field "name" is required''\<rparr>, initial)
   \<and> delete_resident initial (ascii ''abc'') =
     (Inr \<lparr>status = 404, body = JsonError ''error'' ''Resident not found''\<rparr>, initial)\<close>
proof -
  let ?b = "VObj [(ascii ''name'', VStr []), (ascii ''age'', VNum (Finite 30))]"
  have p: "fst (post_residents initial ?b) = Inr name_required"
    by (simp add: post_residents_def get_prop_def create_def ascii_def trim_def)
  have d: "fst (delete_resident initial (ascii ''abc'')) = Inr not_found"
    by (simp add: delete_resident_def number_abc)
  from failed_request_keeps_state [of initial ?b name_required "ascii ''abc''" not_found] p d
  have "snd (post_residents initial ?b) = initial"
    and "snd (delete_resident initial (ascii ''abc'')) = initial"
    by (simp_all add: name_required_def not_found_def)
  with p d show ?thesis
    by (simp add: prod_eq_iff name_required_def not_found_def)
qed

subsection \<open>List\<close>



subsection \<open>Delete\<close>




subsection \<open>Ids\<close>







end
